theory Spec2Isabelle
  imports Main "HOL-Library.Multiset" "HOL-Library.Word"
begin

section \<open>Extended DNS Check (chk): data model\<close>

text \<open>
  The development follows \<^verbatim>\<open>chk.go\<close> (the variant with a cancellable context, a result
  channel and a ticker). Errors are values: a Go \<^verbatim>\<open>error\<close> is represented by its message,
  a \<^verbatim>\<open>(T, error)\<close> return by \<open>string + T\<close> with \<open>Inl\<close> the error message, and a nilable
  field by an option.
\<close>

type_synonym IP = "8 word list"
  \<comment> \<open>\<^verbatim>\<open>net.IP\<close>, a byte slice\<close>

record IPInfo =
  info_IP :: string
  Hostname :: string
  City :: string
  Region :: string
  Country :: string
  Loc :: string
  Org :: string

record Result =
  IP :: string
  PTR :: "string list"
  IPInfo :: "IPInfo option"
  IsIPv6 :: bool
  Error :: "string option"

record CLI =
  IPv4 :: bool
  IPv6 :: bool
  Timeout :: int
  Target :: string

record Response =
  StatusCode :: nat
  Body :: string

text \<open>
  The library calls the program makes are the environment of a run: what the resolver,
  the HTTP client and the JSON decoder answer. None of them is code of the repository,
  so each is a field of the record \<open>env\<close>.
\<close>

record env =
  net_ParseIP :: "string \<Rightarrow> IP option"
  ip_To4 :: "IP \<Rightarrow> IP option"
  ip_String :: "IP \<Rightarrow> string"
  net_LookupHost :: "string \<Rightarrow> string + string list"
  net_LookupIP :: "string \<Rightarrow> string + IP list"
  net_LookupAddr :: "string \<Rightarrow> string + string list"
  http_NewRequest :: "string \<Rightarrow> string + string"
  http_Do :: "string \<Rightarrow> string + Response"
  json_Decode :: "string \<Rightarrow> string + IPInfo"

section \<open>The metadata fetch\<close>

text \<open>
  \<^verbatim>\<open>getIPInfo\<close>: build the request, perform it, decode the body. There are three early
  returns with an error and no test of the response's status code.
\<close>

definition getIPInfo :: "env \<Rightarrow> string \<Rightarrow> string + IPInfo" where
  "getIPInfo e ip =
     (case http_NewRequest e (''https://ipinfo.io/'' @ ip @ ''/json'') of
        Inl err \<Rightarrow> Inl err
      | Inr req \<Rightarrow>
          (case http_Do e req of
             Inl err \<Rightarrow> Inl err
           | Inr resp \<Rightarrow>
               (case json_Decode e (Body resp) of
                  Inl err \<Rightarrow> Inl err
                | Inr ipInfo \<Rightarrow> Inr ipInfo)))"

section \<open>The per-address enricher\<close>

text \<open>
  \<^verbatim>\<open>lookupIP\<close> starts two goroutines that share the variable \<^verbatim>\<open>result\<close> and waits for
  both. The model interleaves their accesses to \<^verbatim>\<open>result\<close>, one access per step, under a
  sequentially consistent memory:
  \<^item> the reverse-lookup goroutine calls \<^verbatim>\<open>net.LookupAddr\<close> and then writes
    \<^verbatim>\<open>result.Error\<close> or \<^verbatim>\<open>result.PTR\<close> (one step);
  \<^item> the metadata goroutine calls \<^verbatim>\<open>getIPInfo\<close>; on success it writes
    \<^verbatim>\<open>result.IPInfo\<close> (one step); on failure it tests \<^verbatim>\<open>result.Error != nil\<close> (a read),
    then either writes the plain message, or reads \<^verbatim>\<open>result.Error\<close> again to format it
    and writes the composite message.
\<close>

datatype gid = PtrG | InfoG

datatype info_pc =
    IStart                \<comment> \<open>before \<^verbatim>\<open>getIPInfo\<close> returns\<close>
  | IElse string          \<comment> \<open>\<^verbatim>\<open>err\<close>; the test saw nil: about to write the plain message\<close>
  | IThen string          \<comment> \<open>\<^verbatim>\<open>err\<close>; the test saw an error: about to read it for \<^verbatim>\<open>%v\<close>\<close>
  | IFmt string string    \<comment> \<open>\<^verbatim>\<open>err\<close> and the message read: about to write the composite\<close>
  | IDone

record lstate =
  result :: Result
  ptr_done :: bool
  ipc :: info_pc

definition ptr_msg :: "string \<Rightarrow> string" where
  "ptr_msg err = ''error looking up PTR records: '' @ err"

definition info_msg :: "string \<Rightarrow> string" where
  "info_msg err = ''error fetching IP info: '' @ err"

definition both_msg :: "string \<Rightarrow> string \<Rightarrow> string" where
  "both_msg prev err = prev @ ''; error fetching IP info: '' @ err"

fun lstep :: "env \<Rightarrow> string \<Rightarrow> lstate \<Rightarrow> gid \<Rightarrow> lstate" where
  "lstep e ip s PtrG =
     (if ptr_done s then s
      else (case net_LookupAddr e ip of
              Inl err \<Rightarrow> s\<lparr>result := (result s)\<lparr>Error := Some (ptr_msg err)\<rparr>, ptr_done := True\<rparr>
            | Inr names \<Rightarrow> s\<lparr>result := (result s)\<lparr>PTR := names\<rparr>, ptr_done := True\<rparr>))"
| "lstep e ip s InfoG =
     (case ipc s of
        IStart \<Rightarrow>
          (case getIPInfo e ip of
             Inr ipInfo \<Rightarrow> s\<lparr>result := (result s)\<lparr>IPInfo := Some ipInfo\<rparr>, ipc := IDone\<rparr>
           | Inl err \<Rightarrow>
               (case Error (result s) of
                  None \<Rightarrow> s\<lparr>ipc := IElse err\<rparr>
                | Some _ \<Rightarrow> s\<lparr>ipc := IThen err\<rparr>))
      | IElse err \<Rightarrow> s\<lparr>result := (result s)\<lparr>Error := Some (info_msg err)\<rparr>, ipc := IDone\<rparr>
      | IThen err \<Rightarrow>
          (case Error (result s) of
             Some m \<Rightarrow> s\<lparr>ipc := IFmt err m\<rparr>
           | None \<Rightarrow> s\<lparr>ipc := IFmt err ''<nil>''\<rparr>)
      | IFmt err m \<Rightarrow> s\<lparr>result := (result s)\<lparr>Error := Some (both_msg m err)\<rparr>, ipc := IDone\<rparr>
      | IDone \<Rightarrow> s)"

definition linit :: "string \<Rightarrow> bool \<Rightarrow> lstate" where
  "linit ip isIPv6 =
     \<lparr>result = \<lparr>IP = ip, PTR = [], IPInfo = None, IsIPv6 = isIPv6, Error = None\<rparr>,
      ptr_done = False, ipc = IStart\<rparr>"

definition lrun :: "env \<Rightarrow> string \<Rightarrow> gid list \<Rightarrow> lstate \<Rightarrow> lstate" where
  "lrun e ip sched s = foldl (lstep e ip) s sched"

definition lfinished :: "lstate \<Rightarrow> bool" where
  "lfinished s \<longleftrightarrow> ptr_done s \<and> ipc s = IDone"

text \<open>
  \<^verbatim>\<open>wgInternal.Wait()\<close> returns once both goroutines are done; then \<^verbatim>\<open>result\<close> is sent.
  The schedule \<open>sched\<close> fixes the order of the steps; the steps that it leaves out are
  taken after it (reverse lookup first), so that every schedule is a complete run.
  \<open>lookupIP\<close> is the value sent on the channel.
\<close>

definition lookupIP :: "env \<Rightarrow> gid list \<Rightarrow> string \<Rightarrow> bool \<Rightarrow> Result" where
  "lookupIP e sched ip isIPv6 =
     result (lrun e ip (sched @ [PtrG, InfoG, InfoG, InfoG]) (linit ip isIPv6))"

section \<open>Validation and resolution of the target\<close>

datatype netcall = CallLookupHost string | CallLookupIP string

text \<open>
  \<^verbatim>\<open>validateInput\<close> returns the error (if any); the model also returns the forward
  resolution calls it made, in order.
\<close>

definition validateInput :: "env \<Rightarrow> string \<Rightarrow> string option \<times> netcall list" where
  "validateInput e input =
     (if net_ParseIP e input \<noteq> None then (None, [])
      else (case net_LookupHost e input of
              Inl err \<Rightarrow> (Some (''invalid domain or IP address: '' @ err), [CallLookupHost input])
            | Inr _ \<Rightarrow> (None, [CallLookupHost input])))"

text \<open>
  The candidate addresses of \<^verbatim>\<open>main\<close>: the literal address itself, or what
  \<^verbatim>\<open>net.LookupIP\<close> answers; again with the forward resolution calls made.
\<close>

definition main_resolve :: "env \<Rightarrow> string \<Rightarrow> (string + IP list) \<times> netcall list" where
  "main_resolve e target =
     (case net_ParseIP e target of
        Some ip \<Rightarrow> (Inr [ip], [])
      | None \<Rightarrow> (net_LookupIP e target, [CallLookupIP target]))"

section \<open>The fan-out loop\<close>

text \<open>
  The loop over \<^verbatim>\<open>ips\<close>. The accumulator is \<^verbatim>\<open>totalIPs\<close>, the counter of \<^verbatim>\<open>wg\<close> and the
  arguments of the \<^verbatim>\<open>go lookupIP(...)\<close> statements executed so far.
\<close>

fun fanout :: "env \<Rightarrow> CLI \<Rightarrow> IP list \<Rightarrow> nat \<times> int \<times> (string \<times> bool) list
                 \<Rightarrow> nat \<times> int \<times> (string \<times> bool) list" where
  "fanout e cli [] acc = acc"
| "fanout e cli (ip # ips) (tot, wgc, launched) =
     (let isIPv6 = (ip_To4 e ip = None) in
      if (IPv4 cli \<and> \<not> isIPv6) \<or> (IPv6 cli \<and> isIPv6) \<or> (\<not> IPv4 cli \<and> \<not> IPv6 cli)
      then fanout e cli ips (tot + 1, wgc + 1, launched @ [(ip_String e ip, isIPv6)])
      else fanout e cli ips (tot, wgc, launched))"

section \<open>The pipeline: enrichers, closer, collector, signal handler and the select loop\<close>

datatype epc =
    EWork   \<comment> \<open>\<^verbatim>\<open>lookupIP\<close> before \<^verbatim>\<open>resultChan <- result\<close>\<close>
  | ESent   \<comment> \<open>after the send, before the deferred \<^verbatim>\<open>wg.Done()\<close>\<close>
  | EDone   \<comment> \<open>returned\<close>

datatype outmsg =
    PrintError string         \<comment> \<open>\<^verbatim>\<open>Error: ...\<close> of a failed validation\<close>
  | PrintLookupError string   \<comment> \<open>\<^verbatim>\<open>Error looking up IP for domain: ...\<close>\<close>
  | PrintInterrupt            \<comment> \<open>\<^verbatim>\<open>Interrupt received, shutting down...\<close>\<close>
  | PrintChecking             \<comment> \<open>\<^verbatim>\<open>Checking records... Please wait\<close>\<close>
  | PrintProgress nat nat     \<comment> \<open>\<^verbatim>\<open>Checking records... %d/%d completed\<close>\<close>
  | PrintCancelled            \<comment> \<open>\<^verbatim>\<open>Operation cancelled\<close>\<close>
  | PrintClear                \<comment> \<open>the blanks that erase the progress line\<close>
  | PrintResult Result        \<comment> \<open>the block of one call of \<^verbatim>\<open>printResult\<close>\<close>
  | PrintPanic                \<comment> \<open>a run-time panic\<close>

datatype event =
    Send nat      \<comment> \<open>enricher \<open>i\<close>: \<^verbatim>\<open>resultChan <- result\<close>\<close>
  | WgDone nat    \<comment> \<open>enricher \<open>i\<close>: the deferred \<^verbatim>\<open>wg.Done()\<close>\<close>
  | CloseChan     \<comment> \<open>closer: \<^verbatim>\<open>wg.Wait()\<close> returns, \<^verbatim>\<open>close(resultChan)\<close>\<close>
  | Recv          \<comment> \<open>collector: one iteration of \<^verbatim>\<open>for result := range resultChan\<close>\<close>
  | CloseDone     \<comment> \<open>collector: the range loop ends, \<^verbatim>\<open>close(done)\<close>\<close>
  | Signal        \<comment> \<open>signal handler: \<^verbatim>\<open><-sigChan\<close>, the message, \<^verbatim>\<open>cancel()\<close>\<close>
  | Banner        \<comment> \<open>main: prints the banner, starts the ticker, enters the loop\<close>
  | Tick          \<comment> \<open>main: \<^verbatim>\<open>case <-ticker.C\<close>\<close>
  | SelCancel     \<comment> \<open>main: \<^verbatim>\<open>case <-mainCtx.Done()\<close>\<close>
  | SelDone       \<comment> \<open>main: \<^verbatim>\<open>case <-done\<close>\<close>

record pstate =
  enr :: "epc list"
  resultChan :: "Result list"
  resultChan_closed :: bool
  wg :: int
  results :: "Result list"
  done_closed :: bool
  cancelled :: bool
  in_loop :: bool
  processed :: nat
  totalIPs :: nat
  out :: "outmsg list"
  exit :: "nat option"

definition panic :: "pstate \<Rightarrow> pstate" where
  "panic s = s\<lparr>out := out s @ [PrintPanic], exit := Some 2\<rparr>"

text \<open>
  One step of the goroutine that the scheduler picks. A goroutine that is blocked (a full
  channel buffer, a positive wait-group counter, a channel that is not ready) or that has
  returned does nothing. \<open>rs ! i\<close> is the Result that enricher \<open>i\<close> computed. The channel
  buffer holds 10 Results. After the process has exited nothing happens.
\<close>

definition pstep :: "Result list \<Rightarrow> pstate \<Rightarrow> event \<Rightarrow> pstate" where
  "pstep rs s ev =
     (if exit s \<noteq> None then s
      else (case ev of
        Send i \<Rightarrow>
          (if i < length (enr s) \<and> enr s ! i = EWork then
             (if resultChan_closed s then panic s
              else if length (resultChan s) < 10
              then s\<lparr>resultChan := resultChan s @ [rs ! i], enr := (enr s)[i := ESent]\<rparr>
              else s)
           else s)
      | WgDone i \<Rightarrow>
          (if i < length (enr s) \<and> enr s ! i = ESent then
             (if wg s - 1 < 0 then panic s
              else s\<lparr>wg := wg s - 1, enr := (enr s)[i := EDone]\<rparr>)
           else s)
      | CloseChan \<Rightarrow>
          (if wg s = 0 \<and> \<not> resultChan_closed s then s\<lparr>resultChan_closed := True\<rparr> else s)
      | Recv \<Rightarrow>
          (if \<not> done_closed s \<and> resultChan s \<noteq> []
           then s\<lparr>results := results s @ [hd (resultChan s)], resultChan := tl (resultChan s)\<rparr>
           else s)
      | CloseDone \<Rightarrow>
          (if \<not> done_closed s \<and> resultChan s = [] \<and> resultChan_closed s
           then s\<lparr>done_closed := True\<rparr> else s)
      | Signal \<Rightarrow>
          (if \<not> cancelled s then s\<lparr>out := out s @ [PrintInterrupt], cancelled := True\<rparr> else s)
      | Banner \<Rightarrow>
          (if \<not> in_loop s then s\<lparr>out := out s @ [PrintChecking], in_loop := True\<rparr> else s)
      | Tick \<Rightarrow>
          (if in_loop s
           then s\<lparr>processed := length (results s),
                  out := out s @ [PrintProgress (length (results s)) (totalIPs s)]\<rparr>
           else s)
      | SelCancel \<Rightarrow>
          (if in_loop s \<and> cancelled s
           then s\<lparr>out := out s @ [PrintCancelled], exit := Some 0\<rparr> else s)
      | SelDone \<Rightarrow>
          (if in_loop s \<and> done_closed s
           then s\<lparr>out := out s @ PrintClear # map PrintResult (results s), exit := Some 0\<rparr>
           else s)))"

definition pinit :: "nat \<Rightarrow> int \<Rightarrow> nat \<Rightarrow> pstate" where
  "pinit tot wgc n =
     \<lparr>enr = replicate n EWork, resultChan = [], resultChan_closed = False, wg = wgc,
      results = [], done_closed = False, cancelled = False, in_loop = False,
      processed = 0, totalIPs = tot, out = [], exit = None\<rparr>"

definition prun :: "Result list \<Rightarrow> event list \<Rightarrow> pstate \<Rightarrow> pstate" where
  "prun rs sched s = foldl (pstep rs) s sched"

text \<open>
  The Results of the launched enrichers: enricher \<open>i\<close> runs \<open>lookupIP\<close> on its arguments
  under its own inner schedule \<open>isched i\<close>.
\<close>

fun enrich :: "env \<Rightarrow> (nat \<Rightarrow> gid list) \<Rightarrow> nat \<Rightarrow> (string \<times> bool) list \<Rightarrow> Result list" where
  "enrich e isched i [] = []"
| "enrich e isched i ((ip, isIPv6) # as) = lookupIP e (isched i) ip isIPv6 # enrich e isched (Suc i) as"

text \<open>
  \<^verbatim>\<open>main\<close> from the fan-out loop on: the state after the events of \<open>sched\<close>.
\<close>

definition coordinator :: "env \<Rightarrow> CLI \<Rightarrow> (nat \<Rightarrow> gid list) \<Rightarrow> IP list \<Rightarrow> event list \<Rightarrow> pstate" where
  "coordinator e cli isched ips sched =
     (case fanout e cli ips (0, 0, []) of
        (tot, wgc, launched) \<Rightarrow>
          prun (enrich e isched 0 launched) sched (pinit tot wgc (length launched)))"

text \<open>
  \<^verbatim>\<open>main\<close>: what was printed and the exit status (\<open>None\<close> while the process runs).
  \<^verbatim>\<open>ctx.Exit(1)\<close> ends the process with status 1; returning from \<^verbatim>\<open>main\<close> ends it with
  status 0.
\<close>

definition main :: "env \<Rightarrow> CLI \<Rightarrow> (nat \<Rightarrow> gid list) \<Rightarrow> event list \<Rightarrow> outmsg list \<times> nat option" where
  "main e cli isched sched =
     (case fst (validateInput e (Target cli)) of
        Some err \<Rightarrow> ([PrintError err], Some 1)
      | None \<Rightarrow>
          (case fst (main_resolve e (Target cli)) of
             Inl err \<Rightarrow> ([PrintLookupError err], Some 1)
           | Inr ips \<Rightarrow>
               (let s = coordinator e cli isched ips sched in (out s, exit s))))"

section \<open>A sample environment\<close>

text \<open>
  Four addresses with the four combinations of outcomes: \<^verbatim>\<open>8.8.8.8\<close> (both lookups
  succeed), \<^verbatim>\<open>192.0.2.1\<close> (no PTR record; the service answers 404 with the body \<^verbatim>\<open>{}\<close>,
  which decodes), \<^verbatim>\<open>2001:db8::1\<close> (no PTR record, the HTTP exchange fails) and
  \<^verbatim>\<open>198.51.100.7\<close> (a PTR record; the body does not decode). \<open>ip_To4\<close> is Go's: a
  4-byte slice, or a 16-byte slice with the IPv4-in-IPv6 prefix.
\<close>

definition ip_8888 :: IP where
  "ip_8888 = [0, 0, 0, 0, 0, 0, 0, 0, 0, 0, 255, 255, 8, 8, 8, 8]"

definition ip_192 :: IP where
  "ip_192 = [0, 0, 0, 0, 0, 0, 0, 0, 0, 0, 255, 255, 192, 0, 2, 1]"

definition ip_2001 :: IP where
  "ip_2001 = [32, 1, 13, 184, 0, 0, 0, 0, 0, 0, 0, 0, 0, 0, 0, 1]"

definition empty_info :: IPInfo where
  "empty_info = \<lparr>info_IP = [], Hostname = [], City = [], Region = [], Country = [],
                  Loc = [], Org = []\<rparr>"

definition sample_ParseIP :: "string \<Rightarrow> IP option" where
  "sample_ParseIP s =
     (if s = ''8.8.8.8'' then Some ip_8888
      else if s = ''192.0.2.1'' then Some ip_192
      else if s = ''2001:db8::1'' then Some ip_2001 else None)"

definition sample_To4 :: "IP \<Rightarrow> IP option" where
  "sample_To4 ip =
     (if length ip = 4 then Some ip
      else if length ip = 16 \<and> take 10 ip = replicate 10 0 \<and> ip ! 10 = 255 \<and> ip ! 11 = 255
      then Some (drop 12 ip) else None)"

definition sample_String :: "IP \<Rightarrow> string" where
  "sample_String ip =
     (if ip = ip_8888 then ''8.8.8.8''
      else if ip = ip_192 then ''192.0.2.1''
      else if ip = ip_2001 then ''2001:db8::1'' else ''?'')"

definition sample_LookupHost :: "string \<Rightarrow> string + string list" where
  "sample_LookupHost h =
     (if h = ''example.test'' then Inr [''192.0.2.1'', ''2001:db8::1'']
      else Inl ''no such host'')"

definition sample_LookupIP :: "string \<Rightarrow> string + IP list" where
  "sample_LookupIP h =
     (if h = ''example.test'' then Inr [ip_192, ip_2001] else Inl ''no such host'')"

definition sample_LookupAddr :: "string \<Rightarrow> string + string list" where
  "sample_LookupAddr a =
     (if a = ''8.8.8.8'' then Inr [''dns.google.'']
      else if a = ''198.51.100.7'' then Inr [''host.example.'']
      else Inl ''no such host'')"

definition sample_Do :: "string \<Rightarrow> string + Response" where
  "sample_Do url =
     (if url = ''https://ipinfo.io/8.8.8.8/json'' then Inr \<lparr>StatusCode = 200, Body = ''{}''\<rparr>
      else if url = ''https://ipinfo.io/192.0.2.1/json''
        then Inr \<lparr>StatusCode = 404, Body = ''{}''\<rparr>
      else if url = ''https://ipinfo.io/198.51.100.7/json''
        then Inr \<lparr>StatusCode = 200, Body = ''<html>''\<rparr>
      else Inl ''context deadline exceeded'')"

definition sample_Decode :: "string \<Rightarrow> string + IPInfo" where
  "sample_Decode b = (if b = ''{}'' then Inr empty_info else Inl ''invalid character'')"

definition sample_env :: env where
  "sample_env =
     \<lparr>net_ParseIP = sample_ParseIP, ip_To4 = sample_To4, ip_String = sample_String,
      net_LookupHost = sample_LookupHost, net_LookupIP = sample_LookupIP,
      net_LookupAddr = sample_LookupAddr, http_NewRequest = Inr, http_Do = sample_Do,
      json_Decode = sample_Decode\<rparr>"

section \<open>Invariants\<close>

text \<open>
  What holds of the enricher's state after any number of steps: the fields that only one
  goroutine writes, and \<open>Error\<close> in the cases where at most one goroutine writes it.
\<close>

definition linv :: "env \<Rightarrow> string \<Rightarrow> bool \<Rightarrow> lstate \<Rightarrow> bool" where
  "linv e ip v6 s \<longleftrightarrow>
     IP (result s) = ip \<and> IsIPv6 (result s) = v6 \<and>
     PTR (result s) = (case net_LookupAddr e ip of Inr names \<Rightarrow> if ptr_done s then names else [] | Inl _ \<Rightarrow> []) \<and>
     (case getIPInfo e ip of
        Inr info \<Rightarrow>
          (ipc s = IStart \<or> ipc s = IDone) \<and>
          IPInfo (result s) = (if ipc s = IDone then Some info else None) \<and>
          Error (result s) = (case net_LookupAddr e ip of Inl err \<Rightarrow> if ptr_done s then Some (ptr_msg err) else None | Inr _ \<Rightarrow> None)
      | Inl err2 \<Rightarrow>
          IPInfo (result s) = None \<and>
          (case net_LookupAddr e ip of
             Inr _ \<Rightarrow> (ipc s = IStart \<or> ipc s = IElse err2 \<or> ipc s = IDone) \<and>
                      Error (result s) = (if ipc s = IDone then Some (info_msg err2) else None)
           | Inl _ \<Rightarrow> True))"

text \<open>
  Both lookups fail and the reverse-lookup goroutine has written its error first: what
  the metadata goroutine has seen and \<open>Error\<close> holds.
\<close>

definition linv_ptr_first :: "string \<Rightarrow> string \<Rightarrow> lstate \<Rightarrow> bool" where
  "linv_ptr_first err1 err2 s \<longleftrightarrow>
     ptr_done s \<and>
     (case ipc s of
        IStart \<Rightarrow> Error (result s) = Some (ptr_msg err1)
      | IElse err \<Rightarrow> False
      | IThen err \<Rightarrow> err = err2 \<and> Error (result s) = Some (ptr_msg err1)
      | IFmt err m \<Rightarrow> err = err2 \<and> m = ptr_msg err1
      | IDone \<Rightarrow> Error (result s) = Some (both_msg (ptr_msg err1) err2))"

text \<open>The number of steps the metadata goroutine has left, at most.\<close>

fun irank :: "info_pc \<Rightarrow> nat" where
  "irank IStart = 3"
| "irank (IThen err) = 2"
| "irank (IElse err) = 1"
| "irank (IFmt err m) = 1"
| "irank IDone = 0"

text \<open>
  For the pipeline: the Results of the enrichers that are past their send, the number of
  enrichers that have not returned, and the Results whose block a text contains.
\<close>

fun sent :: "Result list \<Rightarrow> epc list \<Rightarrow> Result list" where
  "sent (r # rs) (p # ps) = (if p = EWork then sent rs ps else r # sent rs ps)"
| "sent rs ps = []"

fun pending :: "epc list \<Rightarrow> nat" where
  "pending [] = 0"
| "pending (p # ps) = (if p = EDone then pending ps else Suc (pending ps))"

fun blocks :: "outmsg list \<Rightarrow> Result list" where
  "blocks [] = []"
| "blocks (PrintResult r # ms) = r # blocks ms"
| "blocks (m # ms) = blocks ms"

fun is_error :: "outmsg \<Rightarrow> bool" where
  "is_error (PrintError m) = True"
| "is_error (PrintLookupError m) = True"
| "is_error PrintPanic = True"
| "is_error m = False"

definition pinv_chan :: "Result list \<Rightarrow> pstate \<Rightarrow> bool" where
  "pinv_chan rs s \<longleftrightarrow>
     length (enr s) = length rs \<and>
     wg s = int (pending (enr s)) \<and>
     mset (results s) + mset (resultChan s) = mset (sent rs (enr s)) \<and>
     (resultChan_closed s \<longrightarrow> wg s = 0) \<and>
     (done_closed s \<longrightarrow> resultChan_closed s \<and> resultChan s = []) \<and>
     (exit s = None \<or> exit s = Some 0)"

definition pinv_out :: "pstate \<Rightarrow> bool" where
  "pinv_out s \<longleftrightarrow>
     (\<forall>m \<in> set (out s). \<not> is_error m) \<and>
     (PrintCancelled \<in> set (out s) \<longrightarrow> cancelled s) \<and>
     (cancelled s \<longrightarrow> PrintInterrupt \<in> set (out s)) \<and>
     (case exit s of
        None \<Rightarrow>
          blocks (out s) = [] \<and> PrintCancelled \<notin> set (out s) \<and> PrintClear \<notin> set (out s)
      | Some c \<Rightarrow>
          (PrintCancelled \<in> set (out s) \<and> blocks (out s) = []) \<or>
          (PrintCancelled \<notin> set (out s) \<and> done_closed s \<and> blocks (out s) = results s \<and>
           PrintClear \<in> set (out s)))"

text \<open>
  The filter in the words of the specification: an address is selected iff the filter
  requests its family, or requests neither family.
\<close>

definition spec_selected :: "CLI \<Rightarrow> bool \<Rightarrow> bool" where
  "spec_selected cli isIPv6 \<longleftrightarrow>
     (if isIPv6 then IPv6 cli else IPv4 cli) \<or> (\<not> IPv4 cli \<and> \<not> IPv6 cli)"







section \<open>The enricher: properties\<close>

lemma linv_linit: "linv e ip v6 (linit ip v6)"
  by (simp add: linv_def linit_def split: sum.splits)

lemma linv_lstep: "linv e ip v6 s \<Longrightarrow> linv e ip v6 (lstep e ip s g)"
  by (cases g) (auto simp: linv_def split: sum.splits info_pc.splits option.splits)

lemma linv_foldl: "linv e ip v6 s \<Longrightarrow> linv e ip v6 (foldl (lstep e ip) s sched)"
  by (induction sched arbitrary: s) (simp_all add: linv_lstep)

lemma ptr_done_PtrG: "ptr_done (lstep e ip s PtrG)"
  by (simp split: sum.splits)

lemma ptr_done_InfoG: "ptr_done (lstep e ip s InfoG) = ptr_done s"
  by (cases "ipc s") (simp_all split: sum.splits option.splits)

lemma irank_InfoG: "irank (ipc (lstep e ip s InfoG)) \<le> irank (ipc s) - 1"
  by (cases "ipc s") (simp_all split: sum.splits option.splits)

lemma irank_0: "irank p = 0 \<Longrightarrow> p = IDone"
  by (cases p) simp_all

lemma lfinished_completion: "lfinished (foldl (lstep e ip) s [PtrG, InfoG, InfoG, InfoG])"
proof -
  define s1 where "s1 = lstep e ip s PtrG"
  define s2 where "s2 = lstep e ip s1 InfoG"
  define s3 where "s3 = lstep e ip s2 InfoG"
  define s4 where "s4 = lstep e ip s3 InfoG"
  have p: "ptr_done s4"
    unfolding s4_def s3_def s2_def s1_def by (simp only: ptr_done_InfoG ptr_done_PtrG)
  have "irank (ipc s1) \<le> 3" by (cases "ipc s1") simp_all
  moreover have "irank (ipc s2) \<le> irank (ipc s1) - 1" unfolding s2_def by (rule irank_InfoG)
  moreover have "irank (ipc s3) \<le> irank (ipc s2) - 1" unfolding s3_def by (rule irank_InfoG)
  moreover have "irank (ipc s4) \<le> irank (ipc s3) - 1" unfolding s4_def by (rule irank_InfoG)
  ultimately have "irank (ipc s4) = 0" by arith
  then have "ipc s4 = IDone" by (rule irank_0)
  moreover have "foldl (lstep e ip) s [PtrG, InfoG, InfoG, InfoG] = s4"
    unfolding s4_def s3_def s2_def s1_def by (simp only: foldl.simps)
  ultimately show ?thesis using p by (simp only: lfinished_def simp_thms)
qed

lemma lookupIP_inv:
  "\<exists>s. linv e ip v6 s \<and> lfinished s \<and> lookupIP e sched ip v6 = result s"
  unfolding lookupIP_def lrun_def foldl_append
  using lfinished_completion linv_foldl[OF linv_foldl[OF linv_linit]] by blast

lemma getIPInfo_sample:
  "getIPInfo sample_env ''8.8.8.8'' = Inr empty_info"
  "getIPInfo sample_env ''192.0.2.1'' = Inr empty_info"
  "getIPInfo sample_env ''2001:db8::1'' = Inl ''context deadline exceeded''"
  "getIPInfo sample_env ''198.51.100.7'' = Inl ''invalid character''"
  by (simp_all add: getIPInfo_def sample_env_def sample_Do_def sample_Decode_def)

lemma LookupAddr_sample:
  "net_LookupAddr sample_env ''8.8.8.8'' = Inr [''dns.google.'']"
  "net_LookupAddr sample_env ''192.0.2.1'' = Inl ''no such host''"
  "net_LookupAddr sample_env ''2001:db8::1'' = Inl ''no such host''"
  "net_LookupAddr sample_env ''198.51.100.7'' = Inr [''host.example.'']"
  by (simp_all add: sample_env_def sample_LookupAddr_def)

text \<open>
  C8. When the reverse lookup of an address fails and the metadata fetch succeeds, the
  Result that \<open>lookupIP\<close> sends has the Metadata Record, an empty PTR list and the error
  of the reverse lookup alone, under every schedule of the two goroutines.
\<close>

theorem lookupIP_ptr_fails_only:
  assumes "net_LookupAddr e ip = Inl err" and "getIPInfo e ip = Inr info"
  shows "lookupIP e sched ip v6 =
           \<lparr>IP = ip, PTR = [], IPInfo = Some info, IsIPv6 = v6,
            Error = Some (''error looking up PTR records: '' @ err)\<rparr>"
proof -
  obtain s where s: "linv e ip v6 s" "lfinished s" "lookupIP e sched ip v6 = result s"
    using lookupIP_inv by blast
  show ?thesis using s assms by (cases "result s") (simp add: linv_def lfinished_def ptr_msg_def)
qed

theorem lookupIP_ptr_fails_only_witness:
  "lookupIP sample_env [InfoG, PtrG] ''192.0.2.1'' False =
     \<lparr>IP = ''192.0.2.1'', PTR = [], IPInfo = Some empty_info, IsIPv6 = False,
      Error = Some ''error looking up PTR records: no such host''\<rparr>"
  using lookupIP_ptr_fails_only [OF LookupAddr_sample(2) getIPInfo_sample(2), of "[InfoG, PtrG]" False]
  by simp

lemma getIPInfo_Inl_iff: "(getIPInfo e ip = Inl err \<longleftrightarrow>
      http_NewRequest e (''https://ipinfo.io/'' @ ip @ ''/json'') = Inl err \<or>
      (\<exists>req. http_NewRequest e (''https://ipinfo.io/'' @ ip @ ''/json'') = Inr req \<and>
         (http_Do e req = Inl err \<or>
          (\<exists>resp. http_Do e req = Inr resp \<and> json_Decode e (Body resp) = Inl err))))"
proof (cases "http_NewRequest e (''https://ipinfo.io/'' @ ip @ ''/json'')")
  case (Inl a)
  then show ?thesis by (simp add: getIPInfo_def)
next
  case R: (Inr req)
  show ?thesis
  proof (cases "http_Do e req")
    case (Inl a)
    with R show ?thesis by (simp add: getIPInfo_def)
  next
    case D: (Inr resp)
    show ?thesis
    proof (cases "json_Decode e (Body resp)")
      case (Inl a)
      with R D show ?thesis by (simp add: getIPInfo_def)
    next
      case (Inr info)
      with R D show ?thesis by (simp add: getIPInfo_def)
    qed
  qed
qed

text \<open>
  C3 (as amended). \<open>getIPInfo\<close> returns an error exactly when the request cannot be
  built, the HTTP exchange fails or the body does not decode; the status code of the
  response plays no part. When it returns an error, the Result has no Metadata Record
  under every schedule, and when the reverse lookup succeeded the Result's error is the
  error of the metadata fetch.
\<close>

theorem getIPInfo_error:
  "(getIPInfo e ip = Inl err \<longleftrightarrow>
      http_NewRequest e (''https://ipinfo.io/'' @ ip @ ''/json'') = Inl err \<or>
      (\<exists>req. http_NewRequest e (''https://ipinfo.io/'' @ ip @ ''/json'') = Inr req \<and>
         (http_Do e req = Inl err \<or>
          (\<exists>resp. http_Do e req = Inr resp \<and> json_Decode e (Body resp) = Inl err)))) \<and>
   (getIPInfo e ip = Inl err \<longrightarrow>
      IPInfo (lookupIP e sched ip v6) = None \<and>
      (\<forall>names. net_LookupAddr e ip = Inr names \<longrightarrow>
         lookupIP e sched ip v6 =
           \<lparr>IP = ip, PTR = names, IPInfo = None, IsIPv6 = v6,
            Error = Some (''error fetching IP info: '' @ err)\<rparr>))"
proof (intro conjI impI allI)
  show "getIPInfo e ip = Inl err \<longleftrightarrow>
      http_NewRequest e (''https://ipinfo.io/'' @ ip @ ''/json'') = Inl err \<or>
      (\<exists>req. http_NewRequest e (''https://ipinfo.io/'' @ ip @ ''/json'') = Inr req \<and>
         (http_Do e req = Inl err \<or>
          (\<exists>resp. http_Do e req = Inr resp \<and> json_Decode e (Body resp) = Inl err)))"
    by (rule getIPInfo_Inl_iff)
next
  assume M: "getIPInfo e ip = Inl err"
  obtain s where s: "linv e ip v6 s" "lfinished s" "lookupIP e sched ip v6 = result s"
    using lookupIP_inv by blast
  show "IPInfo (lookupIP e sched ip v6) = None"
    using s M by (simp add: linv_def)
  fix names assume N: "net_LookupAddr e ip = Inr names"
  show "lookupIP e sched ip v6 =
           \<lparr>IP = ip, PTR = names, IPInfo = None, IsIPv6 = v6,
            Error = Some (''error fetching IP info: '' @ err)\<rparr>"
    using s M N by (cases "result s") (simp add: linv_def lfinished_def info_msg_def)
qed

theorem getIPInfo_error_witness:
  "getIPInfo sample_env ''198.51.100.7'' = Inl ''invalid character'' \<and>
   lookupIP sample_env [InfoG, PtrG, InfoG] ''198.51.100.7'' False =
     \<lparr>IP = ''198.51.100.7'', PTR = [''host.example.''], IPInfo = None, IsIPv6 = False,
      Error = Some ''error fetching IP info: invalid character''\<rparr>"
  using getIPInfo_error [of sample_env "''198.51.100.7''" "''invalid character''" "[InfoG, PtrG, InfoG]" False]
    getIPInfo_sample(4) LookupAddr_sample(4) by simp

text \<open>
  C3 as stated fails: a response with status 404 whose body decodes is no error, and the
  Result carries the decoded record.
\<close>

theorem getIPInfo_status_counterexample:
  "http_Do sample_env ''https://ipinfo.io/192.0.2.1/json'' = Inr \<lparr>StatusCode = 404, Body = ''{}''\<rparr> \<and>
   getIPInfo sample_env ''192.0.2.1'' = Inr empty_info \<and>
   IPInfo (lookupIP sample_env [] ''192.0.2.1'' False) = Some empty_info"
  by (simp add: getIPInfo_sample LookupAddr_sample lookupIP_def lrun_def linit_def ptr_msg_def) (simp add: sample_env_def sample_Do_def)

text \<open>
  When at most one of the two lookups fails, the Result does not depend on the schedule.
  When both fail and the reverse-lookup goroutine writes first, the error is the composite
  of both messages, the reverse lookup's first.
\<close>

lemma linv_ptr_first_lstep:
  assumes "net_LookupAddr e ip = Inl err1" and "getIPInfo e ip = Inl err2"
    and "linv_ptr_first err1 err2 s"
  shows "linv_ptr_first err1 err2 (lstep e ip s g)"
  using assms by (cases g; cases "ipc s") (auto simp: linv_ptr_first_def)

lemma linv_ptr_first_foldl:
  assumes "net_LookupAddr e ip = Inl err1" and "getIPInfo e ip = Inl err2"
  shows "linv_ptr_first err1 err2 s \<Longrightarrow> linv_ptr_first err1 err2 (foldl (lstep e ip) s sched)"
  by (induction sched arbitrary: s) (simp_all add: linv_ptr_first_lstep [OF assms])

lemma lookupIP_both_fail_ptr_first:
  assumes N: "net_LookupAddr e ip = Inl err1" and M: "getIPInfo e ip = Inl err2"
  shows "lookupIP e (PtrG # sched) ip v6 =
           \<lparr>IP = ip, PTR = [], IPInfo = None, IsIPv6 = v6,
            Error = Some (''error looking up PTR records: '' @ err1 @
                          ''; error fetching IP info: '' @ err2)\<rparr>"
proof -
  obtain s where s: "linv e ip v6 s" "lfinished s" "lookupIP e (PtrG # sched) ip v6 = result s"
    using lookupIP_inv by blast
  have "linv_ptr_first err1 err2 (lstep e ip (linit ip v6) PtrG)"
    using N by (simp add: linv_ptr_first_def linit_def)
  then have "linv_ptr_first err1 err2
      (foldl (lstep e ip) (lstep e ip (linit ip v6) PtrG) (sched @ [PtrG, InfoG, InfoG, InfoG]))"
    by (rule linv_ptr_first_foldl [OF N M])
  then have p: "linv_ptr_first err1 err2 (lrun e ip ((PtrG # sched) @ [PtrG, InfoG, InfoG, InfoG]) (linit ip v6))"
    by (simp add: lrun_def)
  have f: "lfinished (lrun e ip ((PtrG # sched) @ [PtrG, InfoG, InfoG, InfoG]) (linit ip v6))"
    unfolding lrun_def foldl_append by (rule lfinished_completion)
  have i: "linv e ip v6 (lrun e ip ((PtrG # sched) @ [PtrG, InfoG, InfoG, InfoG]) (linit ip v6))"
    unfolding lrun_def by (rule linv_foldl [OF linv_linit])
  show ?thesis
    unfolding lookupIP_def using p f i N M
    by (cases "result (lrun e ip ((PtrG # sched) @ [PtrG, InfoG, InfoG, InfoG]) (linit ip v6))")
       (simp add: linv_def linv_ptr_first_def lfinished_def ptr_msg_def both_msg_def)
qed

lemma lookupIP_schedule_independent:
  assumes "\<not> (isl (net_LookupAddr e ip) \<and> isl (getIPInfo e ip))"
  shows "lookupIP e sched ip v6 = lookupIP e sched' ip v6"
proof -
  obtain s where s: "linv e ip v6 s" "lfinished s" "lookupIP e sched ip v6 = result s"
    using lookupIP_inv by blast
  obtain s' where s': "linv e ip v6 s'" "lfinished s'" "lookupIP e sched' ip v6 = result s'"
    using lookupIP_inv by blast
  have "result s = result s'"
    using s(1,2) s'(1,2) assms
    by (cases "net_LookupAddr e ip"; cases "getIPInfo e ip"; cases "result s"; cases "result s'")
       (simp_all add: linv_def lfinished_def)
  with s(3) s'(3) show ?thesis by simp
qed

text \<open>
  C2. Both lookups of \<^verbatim>\<open>2001:db8::1\<close> fail. When the metadata goroutine tests
  \<^verbatim>\<open>result.Error\<close> and writes its message before the reverse-lookup goroutine writes,
  the later write replaces the message: the Result's error is the error of the reverse
  lookup alone, and the error of the metadata fetch is lost.
\<close>

theorem lookupIP_both_fail_overwrite:
  "net_LookupAddr sample_env ''2001:db8::1'' = Inl ''no such host'' \<and>
   getIPInfo sample_env ''2001:db8::1'' = Inl ''context deadline exceeded'' \<and>
   Error (lookupIP sample_env [InfoG, InfoG, PtrG] ''2001:db8::1'' True) =
     Some ''error looking up PTR records: no such host''"
  by (simp add: getIPInfo_sample LookupAddr_sample lookupIP_def lrun_def linit_def ptr_msg_def info_msg_def both_msg_def)

text \<open>
  C9. With the outcomes of both lookups fixed (both fail), two schedules of the two
  goroutines give different Results.
\<close>

theorem lookupIP_schedule_dependent:
  "lookupIP sample_env [PtrG, InfoG] ''2001:db8::1'' True \<noteq>
   lookupIP sample_env [InfoG, PtrG] ''2001:db8::1'' True"
  by (simp add: getIPInfo_sample LookupAddr_sample lookupIP_def lrun_def linit_def ptr_msg_def info_msg_def both_msg_def)


section \<open>The pipeline: invariants\<close>

lemma sent_send:
  "i < length ps \<Longrightarrow> length ps = length rs \<Longrightarrow> ps ! i = EWork \<Longrightarrow>
   mset (sent rs (ps[i := ESent])) = add_mset (rs ! i) (mset (sent rs ps))"
proof (induction rs ps arbitrary: i rule: sent.induct)
  case (1 r rs p ps)
  then show ?case by (cases i) auto
qed auto

lemma sent_done:
  "i < length ps \<Longrightarrow> ps ! i = ESent \<Longrightarrow> sent rs (ps[i := EDone]) = sent rs ps"
proof (induction rs ps arbitrary: i rule: sent.induct)
  case (1 r rs p ps)
  then show ?case by (cases i) auto
qed auto

lemma pending_send:
  "i < length ps \<Longrightarrow> ps ! i = EWork \<Longrightarrow> pending (ps[i := ESent]) = pending ps"
proof (induction ps arbitrary: i)
  case (Cons p ps)
  then show ?case by (cases i) auto
qed simp

lemma pending_done:
  "i < length ps \<Longrightarrow> ps ! i = ESent \<Longrightarrow> Suc (pending (ps[i := EDone])) = pending ps"
proof (induction ps arbitrary: i)
  case (Cons p ps)
  then show ?case by (cases i) auto
qed simp

lemma pending_0: "pending ps = 0 \<Longrightarrow> length ps = length rs \<Longrightarrow> sent rs ps = rs"
proof (induction rs ps rule: sent.induct)
  case (1 r rs p ps)
  then show ?case by (auto split: if_splits)
qed auto


lemma sent_replicate: "sent rs (replicate n EWork) = []"
proof (induction n arbitrary: rs)
  case 0
  then show ?case by simp
next
  case (Suc n)
  then show ?case by (cases rs) simp_all
qed

lemma pending_replicate: "pending (replicate n EWork) = n"
  by (induction n) auto

lemma blocks_append: "blocks (xs @ ys) = blocks xs @ blocks ys"
  by (induction xs rule: blocks.induct) auto

lemma blocks_map: "blocks (map PrintResult rs) = rs"
  by (induction rs) auto


lemma pending_pos: "i < length ps \<Longrightarrow> ps ! i \<noteq> EDone \<Longrightarrow> 0 < pending ps"
proof (induction ps arbitrary: i)
  case (Cons p ps)
  then show ?case by (cases i) auto
qed simp

lemma mset_hd_tl: "xs \<noteq> [] \<Longrightarrow> add_mset (hd xs) (mset (tl xs)) = mset xs"
  by (cases xs) simp_all

lemma pinv_chan_Send: "pinv_chan rs s \<Longrightarrow> pinv_chan rs (pstep rs s (Send i))"
proof -
  assume I: "pinv_chan rs s"
  show ?thesis
  proof (cases "exit s = None \<and> i < length (enr s) \<and> enr s ! i = EWork")
    case False
    with I show ?thesis by (auto simp: pstep_def)
  next
    case T: True
    then have "0 < pending (enr s)" using pending_pos [of i "enr s"] by simp
    with I have nc: "\<not> resultChan_closed s" by (auto simp: pinv_chan_def)
    with I have nd: "\<not> done_closed s" by (auto simp: pinv_chan_def)
    show ?thesis
    proof (cases "length (resultChan s) < 10")
      case False
      with T nc I show ?thesis by (simp add: pstep_def)
    next
      case True
      with T nc have eq: "pstep rs s (Send i) =
          s\<lparr>resultChan := resultChan s @ [rs ! i], enr := (enr s)[i := ESent]\<rparr>"
        by (simp add: pstep_def)
      from I T have "mset (sent rs ((enr s)[i := ESent])) = add_mset (rs ! i) (mset (sent rs (enr s)))"
        by (intro sent_send) (simp_all add: pinv_chan_def)
      with I T nc nd show ?thesis
        unfolding eq by (simp add: pinv_chan_def pending_send)
    qed
  qed
qed

lemma pinv_chan_WgDone: "pinv_chan rs s \<Longrightarrow> pinv_chan rs (pstep rs s (WgDone i))"
proof -
  assume I: "pinv_chan rs s"
  show ?thesis
  proof (cases "exit s = None \<and> i < length (enr s) \<and> enr s ! i = ESent")
    case False
    with I show ?thesis by (auto simp: pstep_def)
  next
    case T: True
    then have pos: "0 < pending (enr s)" using pending_pos [of i "enr s"] by simp
    with I have nc: "\<not> resultChan_closed s" by (auto simp: pinv_chan_def)
    with I have nd: "\<not> done_closed s" by (auto simp: pinv_chan_def)
    from I pos have w: "\<not> wg s - 1 < 0" by (simp add: pinv_chan_def)
    with T have eq: "pstep rs s (WgDone i) = s\<lparr>wg := wg s - 1, enr := (enr s)[i := EDone]\<rparr>"
      by (simp add: pstep_def)
    from T have "Suc (pending ((enr s)[i := EDone])) = pending (enr s)"
      by (intro pending_done) simp_all
    then have "int (pending (enr s)) - 1 = int (pending ((enr s)[i := EDone]))" by arith
    with I T nc nd show ?thesis
      unfolding eq by (simp add: pinv_chan_def sent_done)
  qed
qed

lemma pinv_chan_Recv: "pinv_chan rs s \<Longrightarrow> pinv_chan rs (pstep rs s Recv)"
proof -
  assume I: "pinv_chan rs s"
  show ?thesis
  proof (cases "exit s = None \<and> \<not> done_closed s \<and> resultChan s \<noteq> []")
    case False
    with I show ?thesis by (auto simp: pstep_def)
  next
    case T: True
    then have eq: "pstep rs s Recv =
        s\<lparr>results := results s @ [hd (resultChan s)], resultChan := tl (resultChan s)\<rparr>"
      by (simp add: pstep_def)
    from T have "mset (resultChan s) = add_mset (hd (resultChan s)) (mset (tl (resultChan s)))"
      by (simp add: mset_hd_tl)
    with I T show ?thesis
      unfolding eq by (auto simp add: pinv_chan_def)
  qed
qed

lemma pinv_chan_pstep: "pinv_chan rs s \<Longrightarrow> pinv_chan rs (pstep rs s ev)"
proof (cases ev)
  case (Send i)
  assume "pinv_chan rs s"
  then show ?thesis unfolding Send by (rule pinv_chan_Send)
next
  case (WgDone i)
  assume "pinv_chan rs s"
  then show ?thesis unfolding WgDone by (rule pinv_chan_WgDone)
next
  case Recv
  assume "pinv_chan rs s"
  then show ?thesis unfolding Recv by (rule pinv_chan_Recv)
qed (auto simp: pstep_def pinv_chan_def)

lemma pinv_chan_pinit: "pinv_chan rs (pinit tot (int (length rs)) (length rs))"
  by (simp add: pinv_chan_def pinit_def sent_replicate pending_replicate)

lemma no_panic_Send:
  assumes "pinv_chan rs s"
  shows "out (pstep rs s (Send i)) = out s \<and> exit (pstep rs s (Send i)) = exit s \<and>
         cancelled (pstep rs s (Send i)) = cancelled s \<and>
         done_closed (pstep rs s (Send i)) = done_closed s \<and>
         results (pstep rs s (Send i)) = results s"
proof (cases "exit s = None \<and> i < length (enr s) \<and> enr s ! i = EWork")
  case False
  then show ?thesis by (auto simp: pstep_def)
next
  case T: True
  then have "0 < pending (enr s)" using pending_pos [of i "enr s"] by simp
  with assms have "\<not> resultChan_closed s" by (auto simp: pinv_chan_def)
  with T show ?thesis by (simp add: pstep_def)
qed

lemma no_panic_WgDone:
  assumes "pinv_chan rs s"
  shows "out (pstep rs s (WgDone i)) = out s \<and> exit (pstep rs s (WgDone i)) = exit s \<and>
         cancelled (pstep rs s (WgDone i)) = cancelled s \<and>
         done_closed (pstep rs s (WgDone i)) = done_closed s \<and>
         results (pstep rs s (WgDone i)) = results s"
proof (cases "exit s = None \<and> i < length (enr s) \<and> enr s ! i = ESent")
  case False
  then show ?thesis by (auto simp: pstep_def)
next
  case T: True
  then have "0 < pending (enr s)" using pending_pos [of i "enr s"] by simp
  with assms have "\<not> wg s - 1 < 0" by (simp add: pinv_chan_def)
  with T show ?thesis by (simp add: pstep_def)
qed

lemma pinv_out_pstep: "pinv_chan rs s \<Longrightarrow> pinv_out s \<Longrightarrow> pinv_out (pstep rs s ev)"
proof (cases ev)
  case (Send i)
  assume "pinv_chan rs s" "pinv_out s"
  then show ?thesis unfolding Send using no_panic_Send [of rs s i] by (auto simp: pinv_out_def split: option.splits)
next
  case (WgDone i)
  assume "pinv_chan rs s" "pinv_out s"
  then show ?thesis unfolding WgDone using no_panic_WgDone [of rs s i] by (auto simp: pinv_out_def split: option.splits)
qed (auto simp: pstep_def pinv_out_def blocks_append blocks_map split: option.splits)

lemma pinv_prun:
  "pinv_chan rs s \<Longrightarrow> pinv_out s \<Longrightarrow> pinv_chan rs (prun rs sched s) \<and> pinv_out (prun rs sched s)"
  unfolding prun_def
  by (induction sched arbitrary: s) (simp_all add: pinv_chan_pstep pinv_out_pstep)

lemma pinv_out_pinit: "pinv_out (pinit tot w n)"
  by (simp add: pinv_out_def pinit_def)


lemma fanout_counts:
  "fanout e cli ips (length l, int (length l), l) = (n', w', l') \<Longrightarrow>
   n' = length l' \<and> w' = int (length l')"
proof (induction ips arbitrary: l)
  case Nil
  then show ?case by auto
next
  case (Cons ip ips)
  show ?case
  proof (cases "(IPv4 cli \<and> ip_To4 e ip \<noteq> None) \<or> (IPv6 cli \<and> ip_To4 e ip = None) \<or> (\<not> IPv4 cli \<and> \<not> IPv6 cli)")
    case True
    with Cons.prems have "fanout e cli ips (length (l @ [(ip_String e ip, ip_To4 e ip = None)]),
        int (length (l @ [(ip_String e ip, ip_To4 e ip = None)])), l @ [(ip_String e ip, ip_To4 e ip = None)]) = (n', w', l')"
      by (auto simp: Let_def add.commute split: if_splits)
    then show ?thesis by (rule Cons.IH)
  next
    case False
    with Cons.prems have "fanout e cli ips (length l, int (length l), l) = (n', w', l')"
      by (auto simp: Let_def split: if_splits)
    then show ?thesis by (rule Cons.IH)
  qed
qed

lemma length_enrich: "length (enrich e isched i as) = length as"
  by (induction as arbitrary: i) auto

lemma coordinator_inv:
  assumes "fanout e cli ips (0, 0, []) = (tot, wgc, launched)"
  shows "coordinator e cli isched ips sched =
           prun (enrich e isched 0 launched) sched (pinit tot wgc (length launched))"
    and "tot = length launched"
    and "pinv_chan (enrich e isched 0 launched) (coordinator e cli isched ips sched)"
    and "pinv_out (coordinator e cli isched ips sched)"
proof -
  show c: "coordinator e cli isched ips sched =
           prun (enrich e isched 0 launched) sched (pinit tot wgc (length launched))"
    using assms by (simp add: coordinator_def)
  have "fanout e cli ips (length ([] :: (string \<times> bool) list), int (length ([] :: (string \<times> bool) list)), []) = (tot, wgc, launched)"
    using assms by simp
  then have n: "tot = length launched \<and> wgc = int (length launched)" by (rule fanout_counts)
  then show "tot = length launched" by simp
  have "pinv_chan (enrich e isched 0 launched)
          (pinit tot (int (length (enrich e isched 0 launched))) (length (enrich e isched 0 launched)))"
    by (rule pinv_chan_pinit)
  then have "pinv_chan (enrich e isched 0 launched) (pinit tot wgc (length launched))"
    using n by (simp add: length_enrich)
  then have "pinv_chan (enrich e isched 0 launched) (coordinator e cli isched ips sched) \<and>
             pinv_out (coordinator e cli isched ips sched)"
    unfolding c using pinv_out_pinit by (rule pinv_prun)
  then show "pinv_chan (enrich e isched 0 launched) (coordinator e cli isched ips sched)"
    and "pinv_out (coordinator e cli isched ips sched)" by simp_all
qed



lemma pinv_chan_done:
  assumes "pinv_chan rs s" and "done_closed s"
  shows "mset (results s) = mset rs" and "resultChan s = []"
proof -
  from assms have p: "pending (enr s) = 0" and c: "resultChan s = []" and l: "length (enr s) = length rs"
    by (auto simp: pinv_chan_def)
  from p l have "sent rs (enr s) = rs" by (rule pending_0)
  with assms c show "mset (results s) = mset rs" by (simp add: pinv_chan_def)
  show "resultChan s = []" by (rule c)
qed

subsection \<open>A completing schedule\<close>

lemma prun_append: "prun rs (xs @ ys) s = prun rs ys (prun rs xs s)"
  by (simp add: prun_def)






lemma coordinator_append:
  "coordinator e cli isched ips (sched @ xs) =
     (case fanout e cli ips (0, 0, []) of
        (tot, wgc, launched) \<Rightarrow>
          prun (enrich e isched 0 launched) xs (coordinator e cli isched ips sched))"
  by (simp add: coordinator_def prun_append split: prod.splits)


subsection \<open>Completing a run from any state\<close>





lemma closing_run:
  assumes "pinv_out s" and "exit s = None" and "resultChan s = []" and "wg s = 0"
  shows "exit (prun rs [CloseChan, CloseDone, Banner, SelDone] s) = Some 0"
    and "done_closed (prun rs [CloseChan, CloseDone, Banner, SelDone] s)"
    and "results (prun rs [CloseChan, CloseDone, Banner, SelDone] s) = results s"
    and "blocks (out (prun rs [CloseChan, CloseDone, Banner, SelDone] s)) = results s"
proof -
  define s1 where "s1 = pstep rs s CloseChan"
  define s2 where "s2 = pstep rs s1 CloseDone"
  define s3 where "s3 = pstep rs s2 Banner"
  define s4 where "s4 = pstep rs s3 SelDone"
  have b: "blocks (out s) = []" using assms(1,2) by (simp add: pinv_out_def)
  have 1: "exit s1 = None \<and> resultChan s1 = [] \<and> resultChan_closed s1 \<and>
           results s1 = results s \<and> out s1 = out s"
    unfolding s1_def using assms by (simp add: pstep_def)
  have 2: "exit s2 = None \<and> done_closed s2 \<and> results s2 = results s \<and> out s2 = out s"
    unfolding s2_def using 1 by (simp add: pstep_def)
  have 3: "exit s3 = None \<and> done_closed s3 \<and> results s3 = results s \<and> in_loop s3 \<and>
           blocks (out s3) = []"
    unfolding s3_def using 2 b by (simp add: pstep_def blocks_append)
  have 4: "exit s4 = Some 0 \<and> done_closed s4 \<and> results s4 = results s \<and>
           blocks (out s4) = results s"
    unfolding s4_def using 3 by (simp add: pstep_def blocks_append blocks_map)
  have "prun rs [CloseChan, CloseDone, Banner, SelDone] s = s4"
    unfolding s4_def s3_def s2_def s1_def by (simp add: prun_def)
  with 4 show "exit (prun rs [CloseChan, CloseDone, Banner, SelDone] s) = Some 0"
    and "done_closed (prun rs [CloseChan, CloseDone, Banner, SelDone] s)"
    and "results (prun rs [CloseChan, CloseDone, Banner, SelDone] s) = results s"
    and "blocks (out (prun rs [CloseChan, CloseDone, Banner, SelDone] s)) = results s"
    by simp_all
qed




subsection \<open>The sample environment, evaluated\<close>

lemma To4_sample:
  "ip_To4 sample_env ip_8888 = Some [8, 8, 8, 8]"
  "ip_To4 sample_env ip_192 = Some [192, 0, 2, 1]"
  "ip_To4 sample_env ip_2001 = None"
  by (simp_all add: sample_env_def sample_To4_def ip_8888_def ip_192_def ip_2001_def eval_nat_numeral)

lemma String_sample:
  "ip_String sample_env ip_8888 = ''8.8.8.8''"
  "ip_String sample_env ip_192 = ''192.0.2.1''"
  "ip_String sample_env ip_2001 = ''2001:db8::1''"
  by (simp_all add: sample_env_def sample_String_def ip_8888_def ip_192_def ip_2001_def)



section \<open>The pipeline: properties\<close>



section \<open>Validation, fan-out, exit status and cancellation\<close>

lemma ParseIP_sample:
  "net_ParseIP sample_env ''8.8.8.8'' = Some ip_8888"
  "net_ParseIP sample_env ''example.test'' = None"
  "net_ParseIP sample_env ''nonexistent'' = None"
  by (simp_all add: sample_env_def sample_ParseIP_def)

text \<open>
  C7. When the target parses as a literal IP address, \<open>validateInput\<close> succeeds and the
  candidates of \<open>main\<close> are that one address; neither makes a forward resolution call.
\<close>

theorem literal_ip_no_resolution:
  assumes "net_ParseIP e input = Some ip"
  shows "validateInput e input = (None, []) \<and> main_resolve e input = (Inr [ip], [])"
  using assms by (simp add: validateInput_def main_resolve_def)

theorem literal_ip_no_resolution_witness:
  "validateInput sample_env ''8.8.8.8'' = (None, []) \<and>
   main_resolve sample_env ''8.8.8.8'' = (Inr [ip_8888], [])"
  using literal_ip_no_resolution [OF ParseIP_sample(1)] by simp

lemma fanout_acc_selected:
  "fanout e cli ips (n, w, l) =
     (n + length (filter (\<lambda>ip. spec_selected cli (ip_To4 e ip = None)) ips),
      w + int (length (filter (\<lambda>ip. spec_selected cli (ip_To4 e ip = None)) ips)),
      l @ map (\<lambda>ip. (ip_String e ip, ip_To4 e ip = None))
            (filter (\<lambda>ip. spec_selected cli (ip_To4 e ip = None)) ips))"
proof (induction ips arbitrary: n w l)
  case Nil
  then show ?case by simp
next
  case (Cons ip ips)
  show ?case
  proof (cases "spec_selected cli (ip_To4 e ip = None)")
    case True
    then have c: "(IPv4 cli \<and> \<not> ip_To4 e ip = None) \<or> (IPv6 cli \<and> ip_To4 e ip = None) \<or> (\<not> IPv4 cli \<and> \<not> IPv6 cli)"
      by (auto simp: spec_selected_def split: if_splits)
    have "fanout e cli (ip # ips) (n, w, l) =
            fanout e cli ips (n + 1, w + 1, l @ [(ip_String e ip, ip_To4 e ip = None)])"
      using c by (simp only: fanout.simps Let_def if_True)
    with True show ?thesis by (simp add: Cons.IH)
  next
    case False
    then have c: "\<not> ((IPv4 cli \<and> \<not> ip_To4 e ip = None) \<or> (IPv6 cli \<and> ip_To4 e ip = None) \<or> (\<not> IPv4 cli \<and> \<not> IPv6 cli))"
      by (auto simp: spec_selected_def split: if_splits)
    have "fanout e cli (ip # ips) (n, w, l) = fanout e cli ips (n, w, l)"
      using c by (simp only: fanout.simps Let_def if_False)
    with False show ?thesis by (simp add: Cons.IH)
  qed
qed

lemma length_enr_pstep: "length (enr (pstep rs s ev)) = length (enr s)"
  by (cases ev) (simp_all add: pstep_def panic_def)

lemma length_enr_prun: "length (enr (prun rs sched s)) = length (enr s)"
  unfolding prun_def by (induction sched arbitrary: s) (simp_all add: length_enr_pstep)


lemma pinv_out_blocks:
  assumes "pinv_out s"
  shows "blocks (out s) = [] \<or> blocks (out s) = results s"
  using assms by (auto simp: pinv_out_def split: option.splits)

lemma pinv_chan_none:
  assumes "pinv_chan [] s"
  shows "results s = []" and "enr s = []"
  using assms by (simp_all add: pinv_chan_def)

lemma coordinator_none:
  assumes "fanout e cli ips (0, 0, []) = (0, 0, [])"
  shows "enr (coordinator e cli isched ips sched) = []"
    and "blocks (out (coordinator e cli isched ips sched)) = []"
    and "\<forall>m \<in> set (out (coordinator e cli isched ips sched)). \<not> is_error m"
    and "exit (coordinator e cli isched ips sched) = None \<or> exit (coordinator e cli isched ips sched) = Some 0"
    and "coordinator e cli isched ips [CloseChan, CloseDone, Banner, SelDone] =
           (pinit 0 0 0)\<lparr>resultChan_closed := True, done_closed := True, in_loop := True,
                          out := [PrintChecking, PrintClear], exit := Some 0\<rparr>"
proof -
  note I = coordinator_inv [OF assms]
  have c: "pinv_chan [] (coordinator e cli isched ips sched)" using I(3) [of isched sched] by simp
  have o: "pinv_out (coordinator e cli isched ips sched)" by (rule I(4))
  show "enr (coordinator e cli isched ips sched) = []" using c by (rule pinv_chan_none)
  have "results (coordinator e cli isched ips sched) = []" using c by (rule pinv_chan_none)
  with pinv_out_blocks [OF o] show "blocks (out (coordinator e cli isched ips sched)) = []" by auto
  show "\<forall>m \<in> set (out (coordinator e cli isched ips sched)). \<not> is_error m"
    using o by (simp add: pinv_out_def)
  show "exit (coordinator e cli isched ips sched) = None \<or> exit (coordinator e cli isched ips sched) = Some 0"
    using c by (simp add: pinv_chan_def)
  show "coordinator e cli isched ips [CloseChan, CloseDone, Banner, SelDone] =
           (pinit 0 0 0)\<lparr>resultChan_closed := True, done_closed := True, in_loop := True,
                          out := [PrintChecking, PrintClear], exit := Some 0\<rparr>"
    unfolding I(1) by (simp add: prun_def pinit_def pstep_def)
qed

text \<open>
  C6. The fan-out loop launches an enricher for exactly the addresses that the filter
  selects in the specification's sense (its family is requested, or neither family is),
  in order, and counts them in \<open>totalIPs\<close> and in the wait group. When no address is
  selected, no run reports an error: nothing is printed as an error, no block is printed,
  the exit status is never other than 0, and the uninterrupted run ends with status 0.
\<close>

theorem fanout_launches_selected:
  "let sel = filter (\<lambda>ip. spec_selected cli (ip_To4 e ip = None)) ips;
       s = coordinator e cli isched ips sched
   in fanout e cli ips (0, 0, []) =
        (length sel, int (length sel), map (\<lambda>ip. (ip_String e ip, ip_To4 e ip = None)) sel) \<and>
      length (enr s) = length sel \<and>
      (sel = [] \<longrightarrow>
         (\<forall>m \<in> set (out s). \<not> is_error m) \<and> blocks (out s) = [] \<and>
         (exit s = None \<or> exit s = Some 0) \<and>
         exit (coordinator e cli isched ips [CloseChan, CloseDone, Banner, SelDone]) = Some 0)"
proof -
  define sel where "sel = filter (\<lambda>ip. spec_selected cli (ip_To4 e ip = None)) ips"
  define s where "s = coordinator e cli isched ips sched"
  have f: "fanout e cli ips (0, 0, []) =
        (length sel, int (length sel), map (\<lambda>ip. (ip_String e ip, ip_To4 e ip = None)) sel)"
    unfolding sel_def by (simp add: fanout_acc_selected)
  have "s = prun (enrich e isched 0 (map (\<lambda>ip. (ip_String e ip, ip_To4 e ip = None)) sel)) sched
              (pinit (length sel) (int (length sel)) (length (map (\<lambda>ip. (ip_String e ip, ip_To4 e ip = None)) sel)))"
    unfolding s_def by (rule coordinator_inv(1) [OF f])
  then have l: "length (enr s) = length sel"
    by (simp add: length_enr_prun pinit_def)
  have z: "sel = [] \<longrightarrow>
         (\<forall>m \<in> set (out s). \<not> is_error m) \<and> blocks (out s) = [] \<and>
         (exit s = None \<or> exit s = Some 0) \<and>
         exit (coordinator e cli isched ips [CloseChan, CloseDone, Banner, SelDone]) = Some 0"
  proof
    assume "sel = []"
    with f have f0: "fanout e cli ips (0, 0, []) = (0, 0, [])" by simp
    show "(\<forall>m \<in> set (out s). \<not> is_error m) \<and> blocks (out s) = [] \<and>
         (exit s = None \<or> exit s = Some 0) \<and>
         exit (coordinator e cli isched ips [CloseChan, CloseDone, Banner, SelDone]) = Some 0"
      unfolding s_def using coordinator_none [OF f0] by simp
  qed
  show ?thesis using f l z unfolding sel_def s_def by (simp add: Let_def)
qed

theorem fanout_launches_selected_witness:
  "fanout sample_env \<lparr>IPv4 = True, IPv6 = False, Timeout = 5, Target = ''example.test''\<rparr>
     [ip_192, ip_2001] (0, 0, []) = (1, 1, [(''192.0.2.1'', False)]) \<and>
   filter (\<lambda>ip. spec_selected \<lparr>IPv4 = False, IPv6 = True, Timeout = 5, Target = ''8.8.8.8''\<rparr>
                   (ip_To4 sample_env ip = None)) [ip_8888] = [] \<and>
   exit (coordinator sample_env \<lparr>IPv4 = False, IPv6 = True, Timeout = 5, Target = ''8.8.8.8''\<rparr>
           (\<lambda>i. []) [ip_8888] [CloseChan, CloseDone, Banner, SelDone]) = Some 0"
  using fanout_launches_selected [where e = sample_env
      and cli = "\<lparr>IPv4 = True, IPv6 = False, Timeout = 5, Target = ''example.test''\<rparr>"
      and ips = "[ip_192, ip_2001]" and isched = "\<lambda>i. []" and sched = "[]"]
    fanout_launches_selected [where e = sample_env
      and cli = "\<lparr>IPv4 = False, IPv6 = True, Timeout = 5, Target = ''8.8.8.8''\<rparr>"
      and ips = "[ip_8888]" and isched = "\<lambda>i. []" and sched = "[]"]
  by (simp add: Let_def spec_selected_def To4_sample String_sample)


lemma coordinator_exit:
  shows "exit (coordinator e cli isched ips sched) = None \<or>
         exit (coordinator e cli isched ips sched) = Some 0"
    and "PrintCancelled \<in> set (out (coordinator e cli isched ips sched)) \<Longrightarrow>
         exit (coordinator e cli isched ips sched) = Some 0 \<and>
         cancelled (coordinator e cli isched ips sched) \<and>
         PrintInterrupt \<in> set (out (coordinator e cli isched ips sched)) \<and>
         blocks (out (coordinator e cli isched ips sched)) = []"
    and "PrintClear \<in> set (out (coordinator e cli isched ips sched)) \<Longrightarrow>
         exit (coordinator e cli isched ips sched) = Some 0"
    and "\<forall>m \<in> set (out (coordinator e cli isched ips sched)). \<not> is_error m"
proof -
  obtain tot wgc launched where f: "fanout e cli ips (0, 0, []) = (tot, wgc, launched)"
    by (cases "fanout e cli ips (0, 0, [])")
  note I = coordinator_inv [OF f]
  have c: "pinv_chan (enrich e isched 0 launched) (coordinator e cli isched ips sched)" by (rule I(3))
  have o: "pinv_out (coordinator e cli isched ips sched)" by (rule I(4))
  show x: "exit (coordinator e cli isched ips sched) = None \<or>
         exit (coordinator e cli isched ips sched) = Some 0"
    using c by (simp add: pinv_chan_def)
  show "PrintCancelled \<in> set (out (coordinator e cli isched ips sched)) \<Longrightarrow>
         exit (coordinator e cli isched ips sched) = Some 0 \<and>
         cancelled (coordinator e cli isched ips sched) \<and>
         PrintInterrupt \<in> set (out (coordinator e cli isched ips sched)) \<and>
         blocks (out (coordinator e cli isched ips sched)) = []"
    using o x by (auto simp: pinv_out_def split: option.splits)
  show "PrintClear \<in> set (out (coordinator e cli isched ips sched)) \<Longrightarrow>
         exit (coordinator e cli isched ips sched) = Some 0"
    using o x by (auto simp: pinv_out_def split: option.splits)
  show "\<forall>m \<in> set (out (coordinator e cli isched ips sched)). \<not> is_error m"
    using o by (simp add: pinv_out_def)
qed

lemma main_literal:
  assumes "net_ParseIP e (Target cli) = Some ip"
  shows "main e cli isched sched =
           (out (coordinator e cli isched [ip] sched), exit (coordinator e cli isched [ip] sched))"
  using assms by (simp add: main_def validateInput_def main_resolve_def Let_def)

lemma coordinator_none_ends:
  assumes f: "fanout e cli ips (0, 0, []) = (0, 0, [])"
    and x: "exit (coordinator e cli isched ips sched) = None"
  shows "exit (coordinator e cli isched ips (sched @ [CloseChan, CloseDone, Banner, SelDone])) = Some 0"
    and "blocks (out (coordinator e cli isched ips (sched @ [CloseChan, CloseDone, Banner, SelDone]))) = []"
proof -
  note I = coordinator_inv [OF f]
  let ?s = "coordinator e cli isched ips sched"
  have c: "pinv_chan [] ?s" using I(3) [of isched sched] by simp
  have o: "pinv_out ?s" by (rule I(4))
  from c have h: "resultChan ?s = []" and w: "wg ?s = 0" and r: "results ?s = []"
    by (simp_all add: pinv_chan_def)
  have a: "coordinator e cli isched ips (sched @ [CloseChan, CloseDone, Banner, SelDone]) =
        prun [] [CloseChan, CloseDone, Banner, SelDone] ?s"
    by (simp add: coordinator_append f)
  note C = closing_run [OF o x h w, of "[]"]
  show "exit (coordinator e cli isched ips (sched @ [CloseChan, CloseDone, Banner, SelDone])) = Some 0"
    unfolding a by (rule C(1))
  show "blocks (out (coordinator e cli isched ips (sched @ [CloseChan, CloseDone, Banner, SelDone]))) = []"
    unfolding a using C(4) r by simp
qed

lemma coordinator_cleared:
  assumes "exit (coordinator e cli isched ips sched) \<noteq> None"
    and "PrintCancelled \<notin> set (out (coordinator e cli isched ips sched))"
  shows "PrintClear \<in> set (out (coordinator e cli isched ips sched))"
proof -
  obtain tot wgc launched where f: "fanout e cli ips (0, 0, []) = (tot, wgc, launched)"
    by (cases "fanout e cli ips (0, 0, [])")
  have "pinv_out (coordinator e cli isched ips sched)" by (rule coordinator_inv(4) [OF f])
  with assms show ?thesis by (auto simp: pinv_out_def split: option.splits)
qed

text \<open>
  C10. When the target is a literal address of the family that the filter excludes (an
  IPv4 literal under the IPv6-only flag, or an IPv6 literal under the IPv4-only flag), no
  enricher is launched, and in every run:
  \<^item> no block and no error is printed, and the exit status is never other than 0;
  \<^item> a run that has ended without taking the cancellation case has printed the cleared
    progress line, so the report is empty;
  \<^item> a run that has not ended is never stuck: as soon as the closer, the collector and
    \<open>main\<close> take their steps it ends with status 0, no block and no error printed;
  \<^item> from the start, these four steps print the banner and the cleared line only and end
    the run with status 0.
\<close>

theorem literal_ip_excluded_by_filter:
  assumes P: "net_ParseIP e (Target cli) = Some ip"
    and F: "(ip_To4 e ip \<noteq> None \<and> IPv6 cli \<and> \<not> IPv4 cli) \<or>
            (ip_To4 e ip = None \<and> IPv4 cli \<and> \<not> IPv6 cli)"
  shows "enr (coordinator e cli isched [ip] sched) = [] \<and>
         blocks (fst (main e cli isched sched)) = [] \<and>
         (\<forall>m \<in> set (fst (main e cli isched sched)). \<not> is_error m) \<and>
         (snd (main e cli isched sched) = None \<or> snd (main e cli isched sched) = Some 0) \<and>
         (snd (main e cli isched sched) \<noteq> None \<and>
          PrintCancelled \<notin> set (fst (main e cli isched sched)) \<longrightarrow>
            PrintClear \<in> set (fst (main e cli isched sched))) \<and>
         (snd (main e cli isched sched) = None \<longrightarrow>
            snd (main e cli isched (sched @ [CloseChan, CloseDone, Banner, SelDone])) = Some 0 \<and>
            blocks (fst (main e cli isched (sched @ [CloseChan, CloseDone, Banner, SelDone]))) = [] \<and>
            (\<forall>m \<in> set (fst (main e cli isched (sched @ [CloseChan, CloseDone, Banner, SelDone]))).
               \<not> is_error m)) \<and>
         main e cli isched [CloseChan, CloseDone, Banner, SelDone] =
           ([PrintChecking, PrintClear], Some 0)"
proof -
  from F have f0: "fanout e cli [ip] (0, 0, []) = (0, 0, [])" by (auto simp: Let_def)
  note N = coordinator_none [OF f0]
  have 1: "main e cli isched [CloseChan, CloseDone, Banner, SelDone] = ([PrintChecking, PrintClear], Some 0)"
    unfolding main_literal [OF P] N(5) by simp
  have 2: "snd (main e cli isched sched) \<noteq> None \<and>
          PrintCancelled \<notin> set (fst (main e cli isched sched)) \<longrightarrow>
            PrintClear \<in> set (fst (main e cli isched sched))"
    unfolding main_literal [OF P] using coordinator_cleared [of e cli isched "[ip]" sched] by simp
  have 3: "snd (main e cli isched sched) = None \<longrightarrow>
            snd (main e cli isched (sched @ [CloseChan, CloseDone, Banner, SelDone])) = Some 0 \<and>
            blocks (fst (main e cli isched (sched @ [CloseChan, CloseDone, Banner, SelDone]))) = [] \<and>
            (\<forall>m \<in> set (fst (main e cli isched (sched @ [CloseChan, CloseDone, Banner, SelDone]))).
               \<not> is_error m)"
  proof
    assume "snd (main e cli isched sched) = None"
    then have x: "exit (coordinator e cli isched [ip] sched) = None"
      unfolding main_literal [OF P] by simp
    note E = coordinator_none_ends [OF f0 x]
    show "snd (main e cli isched (sched @ [CloseChan, CloseDone, Banner, SelDone])) = Some 0 \<and>
            blocks (fst (main e cli isched (sched @ [CloseChan, CloseDone, Banner, SelDone]))) = [] \<and>
            (\<forall>m \<in> set (fst (main e cli isched (sched @ [CloseChan, CloseDone, Banner, SelDone]))).
               \<not> is_error m)"
      unfolding main_literal [OF P]
      using E N(3) [of isched "sched @ [CloseChan, CloseDone, Banner, SelDone]"] by simp
  qed
  show ?thesis
    using 1 2 3 unfolding main_literal [OF P, of isched sched] using N(1-4) [of isched sched] by simp
qed

lemma main_sample_8888_v6only:
  "main sample_env \<lparr>IPv4 = False, IPv6 = True, Timeout = 5, Target = ''8.8.8.8''\<rparr> (\<lambda>i. []) sched =
     (out (prun [] sched (pinit 0 0 0)), exit (prun [] sched (pinit 0 0 0)))"
  using main_literal [where e = sample_env and ip = ip_8888 and isched = "\<lambda>i. []" and sched = sched
      and cli = "\<lparr>IPv4 = False, IPv6 = True, Timeout = 5, Target = ''8.8.8.8''\<rparr>"]
  by (simp add: ParseIP_sample coordinator_def To4_sample)

theorem literal_ip_excluded_by_filter_witness:
  "main sample_env \<lparr>IPv4 = False, IPv6 = True, Timeout = 5, Target = ''8.8.8.8''\<rparr> (\<lambda>i. [])
     [CloseChan, CloseDone, Banner, SelDone] = ([PrintChecking, PrintClear], Some 0) \<and>
   enr (coordinator sample_env \<lparr>IPv4 = False, IPv6 = True, Timeout = 5, Target = ''8.8.8.8''\<rparr>
          (\<lambda>i. []) [ip_8888] [Signal, Tick, Banner, Tick]) = [] \<and>
   snd (main sample_env \<lparr>IPv4 = False, IPv6 = True, Timeout = 5, Target = ''8.8.8.8''\<rparr> (\<lambda>i. [])
          [Signal, Tick, Banner, Tick]) = None \<and>
   snd (main sample_env \<lparr>IPv4 = False, IPv6 = True, Timeout = 5, Target = ''8.8.8.8''\<rparr> (\<lambda>i. [])
          ([Signal, Tick, Banner, Tick] @ [CloseChan, CloseDone, Banner, SelDone])) = Some 0 \<and>
   PrintClear \<in> set (fst (main sample_env
          \<lparr>IPv4 = False, IPv6 = True, Timeout = 5, Target = ''8.8.8.8''\<rparr> (\<lambda>i. [])
          [Banner, Tick, CloseChan, CloseDone, SelDone]))"
proof -
  have n: "snd (main sample_env \<lparr>IPv4 = False, IPv6 = True, Timeout = 5, Target = ''8.8.8.8''\<rparr> (\<lambda>i. [])
          [Signal, Tick, Banner, Tick]) = None"
    and x: "snd (main sample_env \<lparr>IPv4 = False, IPv6 = True, Timeout = 5, Target = ''8.8.8.8''\<rparr> (\<lambda>i. [])
          [Banner, Tick, CloseChan, CloseDone, SelDone]) \<noteq> None"
    and c: "PrintCancelled \<notin> set (fst (main sample_env
          \<lparr>IPv4 = False, IPv6 = True, Timeout = 5, Target = ''8.8.8.8''\<rparr> (\<lambda>i. [])
          [Banner, Tick, CloseChan, CloseDone, SelDone]))"
    unfolding main_sample_8888_v6only by (simp_all add: prun_def pinit_def pstep_def)
  have p: "net_ParseIP sample_env (Target \<lparr>IPv4 = False, IPv6 = True, Timeout = 5, Target = ''8.8.8.8''\<rparr>) = Some ip_8888"
    by (simp add: ParseIP_sample)
  have f: "(ip_To4 sample_env ip_8888 \<noteq> None \<and>
            IPv6 \<lparr>IPv4 = False, IPv6 = True, Timeout = 5, Target = ''8.8.8.8''\<rparr> \<and>
            \<not> IPv4 \<lparr>IPv4 = False, IPv6 = True, Timeout = 5, Target = ''8.8.8.8''\<rparr>) \<or>
           (ip_To4 sample_env ip_8888 = None \<and>
            IPv4 \<lparr>IPv4 = False, IPv6 = True, Timeout = 5, Target = ''8.8.8.8''\<rparr> \<and>
            \<not> IPv6 \<lparr>IPv4 = False, IPv6 = True, Timeout = 5, Target = ''8.8.8.8''\<rparr>)"
    by (simp add: To4_sample)
  show ?thesis
    using n x c
      literal_ip_excluded_by_filter [OF p f, of "\<lambda>i. []" "[Signal, Tick, Banner, Tick]"]
      literal_ip_excluded_by_filter [OF p f, of "\<lambda>i. []" "[Banner, Tick, CloseChan, CloseDone, SelDone]"]
    by simp
qed

lemma main_fatal:
  "fst (validateInput e (Target cli)) = Some err \<Longrightarrow>
     main e cli isched sched = ([PrintError err], Some 1)"
  "fst (validateInput e (Target cli)) = None \<Longrightarrow> fst (main_resolve e (Target cli)) = Inl err \<Longrightarrow>
     main e cli isched sched = ([PrintLookupError err], Some 1)"
  by (simp_all add: main_def)

lemma main_pipeline:
  "fst (validateInput e (Target cli)) = None \<Longrightarrow> fst (main_resolve e (Target cli)) = Inr ips \<Longrightarrow>
     main e cli isched sched =
       (out (coordinator e cli isched ips sched), exit (coordinator e cli isched ips sched))"
  by (simp add: main_def Let_def)

text \<open>
  C4 (as amended). The exit status is 1 when validation or resolution of the target fails.
  Otherwise the process, when it ends, ends with status 0: after the normal completion
  (the progress line was cleared) and also after an interrupt (\<open>Operation cancelled\<close> was
  printed, which happens only after the interrupt message).
\<close>

theorem main_exit_status:
  "(fst (validateInput e (Target cli)) \<noteq> None \<or> isl (fst (main_resolve e (Target cli))) \<longrightarrow>
      snd (main e cli isched sched) = Some 1) \<and>
   (fst (validateInput e (Target cli)) = None \<and> \<not> isl (fst (main_resolve e (Target cli))) \<longrightarrow>
      (snd (main e cli isched sched) = None \<or> snd (main e cli isched sched) = Some 0) \<and>
      (PrintClear \<in> set (fst (main e cli isched sched)) \<longrightarrow>
         snd (main e cli isched sched) = Some 0) \<and>
      (PrintCancelled \<in> set (fst (main e cli isched sched)) \<longrightarrow>
         PrintInterrupt \<in> set (fst (main e cli isched sched)) \<and>
         snd (main e cli isched sched) = Some 0))"
proof (cases "fst (validateInput e (Target cli))")
  case (Some err)
  then show ?thesis by (simp add: main_fatal(1))
next
  case None
  show ?thesis
  proof (cases "fst (main_resolve e (Target cli))")
    case (Inl err)
    with None show ?thesis by (simp add: main_fatal(2))
  next
    case (Inr ips)
    note m = main_pipeline [OF None Inr, of isched sched]
    show ?thesis
      using None Inr coordinator_exit(1) [of e cli isched ips sched]
        coordinator_exit(2) [of e cli isched ips sched]
        coordinator_exit(3) [of e cli isched ips sched]
      unfolding m by auto
  qed
qed

lemma coordinator_sample_8888:
  "coordinator sample_env \<lparr>IPv4 = False, IPv6 = False, Timeout = 5, Target = ''8.8.8.8''\<rparr>
     (\<lambda>i. []) [ip_8888] sched =
   prun [lookupIP sample_env [] ''8.8.8.8'' False] sched (pinit 1 1 1)"
  unfolding coordinator_def by (simp add: To4_sample String_sample)

lemma main_sample_8888:
  "main sample_env \<lparr>IPv4 = False, IPv6 = False, Timeout = 5, Target = ''8.8.8.8''\<rparr> (\<lambda>i. []) sched =
     (out (prun [lookupIP sample_env [] ''8.8.8.8'' False] sched (pinit 1 1 1)),
      exit (prun [lookupIP sample_env [] ''8.8.8.8'' False] sched (pinit 1 1 1)))"
  using main_literal [where e = sample_env and ip = ip_8888 and isched = "\<lambda>i. []" and sched = sched
      and cli = "\<lparr>IPv4 = False, IPv6 = False, Timeout = 5, Target = ''8.8.8.8''\<rparr>"]
  by (simp add: ParseIP_sample coordinator_sample_8888)

lemma validateInput_sample:
  "validateInput sample_env ''nonexistent'' =
     (Some ''invalid domain or IP address: no such host'', [CallLookupHost ''nonexistent''])"
  by (simp add: validateInput_def ParseIP_sample) (simp add: sample_env_def sample_LookupHost_def)

text \<open>
  C4 as stated fails: a run that is interrupted and takes the cancellation case of the
  select returns from \<open>main\<close>, with exit status 0.
\<close>

theorem main_interrupt_exit_0_counterexample:
  "main sample_env \<lparr>IPv4 = False, IPv6 = False, Timeout = 5, Target = ''8.8.8.8''\<rparr> (\<lambda>i. [])
     [Banner, Signal, SelCancel] = ([PrintChecking, PrintInterrupt, PrintCancelled], Some 0)"
  unfolding main_sample_8888
  by (simp add: prun_def pinit_def pstep_def)

theorem main_exit_status_witness:
  "snd (main sample_env \<lparr>IPv4 = False, IPv6 = False, Timeout = 5, Target = ''nonexistent''\<rparr>
          (\<lambda>i. []) [Banner, Tick]) = Some 1 \<and>
   snd (main sample_env \<lparr>IPv4 = False, IPv6 = False, Timeout = 5, Target = ''8.8.8.8''\<rparr>
          (\<lambda>i. []) [Banner, Send 0, Recv, Signal, SelCancel]) = Some 0 \<and>
   snd (main sample_env \<lparr>IPv4 = False, IPv6 = False, Timeout = 5, Target = ''8.8.8.8''\<rparr>
          (\<lambda>i. []) [Banner, Send 0, Recv, WgDone 0, CloseChan, CloseDone, SelDone]) = Some 0"
proof -
  have 1: "fst (validateInput sample_env
      (Target \<lparr>IPv4 = False, IPv6 = False, Timeout = 5, Target = ''nonexistent''\<rparr>)) \<noteq> None"
    by (simp add: validateInput_sample)
  have v: "fst (validateInput sample_env
      (Target \<lparr>IPv4 = False, IPv6 = False, Timeout = 5, Target = ''8.8.8.8''\<rparr>)) = None"
    "\<not> isl (fst (main_resolve sample_env
      (Target \<lparr>IPv4 = False, IPv6 = False, Timeout = 5, Target = ''8.8.8.8''\<rparr>)))"
    by (simp_all add: validateInput_def main_resolve_def ParseIP_sample)
  have 2: "PrintCancelled \<in> set (fst (main sample_env
      \<lparr>IPv4 = False, IPv6 = False, Timeout = 5, Target = ''8.8.8.8''\<rparr>
          (\<lambda>i. []) [Banner, Send 0, Recv, Signal, SelCancel]))"
    unfolding main_sample_8888
    by (simp add: prun_def pinit_def pstep_def)
  have 3: "PrintClear \<in> set (fst (main sample_env
      \<lparr>IPv4 = False, IPv6 = False, Timeout = 5, Target = ''8.8.8.8''\<rparr>
          (\<lambda>i. []) [Banner, Send 0, Recv, WgDone 0, CloseChan, CloseDone, SelDone]))"
    unfolding main_sample_8888
    by (simp add: prun_def pinit_def pstep_def)
  show ?thesis
    using 1 v 2 3
      main_exit_status [where e = sample_env
        and cli = "\<lparr>IPv4 = False, IPv6 = False, Timeout = 5, Target = ''nonexistent''\<rparr>"
        and isched = "\<lambda>i. []" and sched = "[Banner, Tick]"]
      main_exit_status [where e = sample_env
        and cli = "\<lparr>IPv4 = False, IPv6 = False, Timeout = 5, Target = ''8.8.8.8''\<rparr>"
        and isched = "\<lambda>i. []" and sched = "[Banner, Send 0, Recv, Signal, SelCancel]"]
      main_exit_status [where e = sample_env
        and cli = "\<lparr>IPv4 = False, IPv6 = False, Timeout = 5, Target = ''8.8.8.8''\<rparr>"
        and isched = "\<lambda>i. []" and sched = "[Banner, Send 0, Recv, WgDone 0, CloseChan, CloseDone, SelDone]"]
    by blast
qed


lemma cancel_case_ready:
  assumes "pinv_out s" and "exit s = None" and "cancelled s"
  shows "exit (prun rs [Banner, SelCancel] s) = Some 0"
    and "blocks (out (prun rs [Banner, SelCancel] s)) = []"
  using assms by (auto simp: prun_def pstep_def pinv_out_def blocks_append)

text \<open>
  C5 (as amended). In every run: when the select takes the cancellation case
  (\<open>Operation cancelled\<close> is printed), the context was cancelled, no block is printed and
  the process ends; the blocks printed are either none, or exactly the collected
  Results, which are then the Results of all launched enrichers, one each, with no
  cancellation message. So no partial report is printed and no Result is printed twice.
  Once the context is cancelled the cancellation case is ready: the run can end at the
  next select, with status 0 and no block printed.
\<close>

theorem cancel_no_partial_report:
  "case fanout e cli ips (0, 0, []) of
     (tot, wgc, launched) \<Rightarrow>
       let rs = enrich e isched 0 launched;
           s = coordinator e cli isched ips sched;
           s' = coordinator e cli isched ips (sched @ [Banner, SelCancel])
       in (PrintCancelled \<in> set (out s) \<longrightarrow>
             cancelled s \<and> blocks (out s) = [] \<and> exit s = Some 0) \<and>
          (blocks (out s) = [] \<or>
           blocks (out s) = results s \<and> mset (results s) = mset rs \<and>
           PrintCancelled \<notin> set (out s)) \<and>
          (cancelled s \<and> exit s = None \<longrightarrow> exit s' = Some 0 \<and> blocks (out s') = [])"
proof (cases "fanout e cli ips (0, 0, [])")
  case (fields tot wgc launched)
  note I = coordinator_inv [OF fields]
  let ?rs = "enrich e isched 0 launched"
  let ?s = "coordinator e cli isched ips sched"
  let ?s' = "coordinator e cli isched ips (sched @ [Banner, SelCancel])"
  have c: "pinv_chan ?rs ?s" by (rule I(3))
  have o: "pinv_out ?s" by (rule I(4))
  have 1: "PrintCancelled \<in> set (out ?s) \<longrightarrow> cancelled ?s \<and> blocks (out ?s) = [] \<and> exit ?s = Some 0"
    using coordinator_exit(2) [of e cli isched ips sched] by simp
  have 2: "blocks (out ?s) = [] \<or>
           blocks (out ?s) = results ?s \<and> mset (results ?s) = mset ?rs \<and> PrintCancelled \<notin> set (out ?s)"
  proof (cases "blocks (out ?s) = []")
    case True
    then show ?thesis by simp
  next
    case False
    with o have d: "done_closed ?s" and b: "blocks (out ?s) = results ?s"
      and n: "PrintCancelled \<notin> set (out ?s)"
      by (auto simp: pinv_out_def split: option.splits)
    from c d have "mset (results ?s) = mset ?rs" by (rule pinv_chan_done)
    with b n show ?thesis by simp
  qed
  have a: "?s' = prun ?rs [Banner, SelCancel] ?s"
    by (simp add: coordinator_append fields)
  have 3: "cancelled ?s \<and> exit ?s = None \<longrightarrow> exit ?s' = Some 0 \<and> blocks (out ?s') = []"
    unfolding a using cancel_case_ready [OF o, of ?rs] by simp
  show ?thesis unfolding fields using 1 2 3 by (simp add: Let_def)
qed

lemma fanout_sample_8888:
  "fanout sample_env \<lparr>IPv4 = False, IPv6 = False, Timeout = 5, Target = ''8.8.8.8''\<rparr>
     [ip_8888] (0, 0, []) = (1, 1, [(''8.8.8.8'', False)])"
  by (simp add: To4_sample String_sample)

theorem cancel_no_partial_report_witness:
  "(let s = coordinator sample_env \<lparr>IPv4 = False, IPv6 = False, Timeout = 5, Target = ''8.8.8.8''\<rparr>
             (\<lambda>i. []) [ip_8888] [Banner, Send 0, Recv, Signal, SelCancel]
    in PrintCancelled \<in> set (out s) \<and> results s = [lookupIP sample_env [] ''8.8.8.8'' False] \<and>
       blocks (out s) = [] \<and> exit s = Some 0) \<and>
   (let s = coordinator sample_env \<lparr>IPv4 = False, IPv6 = False, Timeout = 5, Target = ''8.8.8.8''\<rparr>
             (\<lambda>i. []) [ip_8888] [Send 0, Recv, Signal];
        s' = coordinator sample_env \<lparr>IPv4 = False, IPv6 = False, Timeout = 5, Target = ''8.8.8.8''\<rparr>
             (\<lambda>i. []) [ip_8888] ([Send 0, Recv, Signal] @ [Banner, SelCancel])
    in cancelled s \<and> exit s = None \<and> exit s' = Some 0 \<and> blocks (out s') = [])"
proof -
  have 1: "PrintCancelled \<in> set (out (coordinator sample_env
        \<lparr>IPv4 = False, IPv6 = False, Timeout = 5, Target = ''8.8.8.8''\<rparr>
             (\<lambda>i. []) [ip_8888] [Banner, Send 0, Recv, Signal, SelCancel]))"
    and 2: "results (coordinator sample_env
        \<lparr>IPv4 = False, IPv6 = False, Timeout = 5, Target = ''8.8.8.8''\<rparr>
             (\<lambda>i. []) [ip_8888] [Banner, Send 0, Recv, Signal, SelCancel]) =
          [lookupIP sample_env [] ''8.8.8.8'' False]"
    and 3: "cancelled (coordinator sample_env
        \<lparr>IPv4 = False, IPv6 = False, Timeout = 5, Target = ''8.8.8.8''\<rparr>
             (\<lambda>i. []) [ip_8888] [Send 0, Recv, Signal])"
    and 4: "exit (coordinator sample_env
        \<lparr>IPv4 = False, IPv6 = False, Timeout = 5, Target = ''8.8.8.8''\<rparr>
             (\<lambda>i. []) [ip_8888] [Send 0, Recv, Signal]) = None"
    unfolding coordinator_sample_8888 by (simp_all add: prun_def pinit_def pstep_def)
  show ?thesis
    using 1 2 3 4
      cancel_no_partial_report [where e = sample_env
        and cli = "\<lparr>IPv4 = False, IPv6 = False, Timeout = 5, Target = ''8.8.8.8''\<rparr>"
        and ips = "[ip_8888]" and isched = "\<lambda>i. []"
        and sched = "[Banner, Send 0, Recv, Signal, SelCancel]"]
      cancel_no_partial_report [where e = sample_env
        and cli = "\<lparr>IPv4 = False, IPv6 = False, Timeout = 5, Target = ''8.8.8.8''\<rparr>"
        and ips = "[ip_8888]" and isched = "\<lambda>i. []"
        and sched = "[Send 0, Recv, Signal]"]
    unfolding fanout_sample_8888 Let_def prod.case by blast
qed

text \<open>
  C5 as stated fails: the interrupt arrives before any Result was produced, the enricher
  still finishes and the collector closes \<open>done\<close> before \<open>main\<close> reaches the select; both
  cases are then ready, the select may take \<open>done\<close>, and the block is printed.
\<close>

theorem cancel_then_full_report_counterexample:
  "cancelled (coordinator sample_env \<lparr>IPv4 = False, IPv6 = False, Timeout = 5, Target = ''8.8.8.8''\<rparr>
      (\<lambda>i. []) [ip_8888] [Signal]) \<and>
   results (coordinator sample_env \<lparr>IPv4 = False, IPv6 = False, Timeout = 5, Target = ''8.8.8.8''\<rparr>
      (\<lambda>i. []) [ip_8888] [Signal]) = [] \<and>
   resultChan (coordinator sample_env \<lparr>IPv4 = False, IPv6 = False, Timeout = 5, Target = ''8.8.8.8''\<rparr>
      (\<lambda>i. []) [ip_8888] [Signal]) = [] \<and>
   out (coordinator sample_env \<lparr>IPv4 = False, IPv6 = False, Timeout = 5, Target = ''8.8.8.8''\<rparr>
      (\<lambda>i. []) [ip_8888] [Signal, Send 0, WgDone 0, CloseChan, Recv, CloseDone, Banner, SelDone]) =
     [PrintInterrupt, PrintChecking, PrintClear, PrintResult (lookupIP sample_env [] ''8.8.8.8'' False)]"
  unfolding coordinator_sample_8888 by (simp add: prun_def pinit_def pstep_def)
end
